theory Spec2Isabelle
  imports Complex_Main
begin

section \<open>The recommendation query of movie.py\<close>

text \<open>
  The theory embeds \<open>load_data\<close> (lines 20 to 58 of \<open>src/movie.py\<close>) and
  \<open>recommend(movie_title, df, similarity_matrix)\<close> (lines 80 to 110). The data frame
  is the list of its rows in corpus order; \<open>load_data\<close> ends with
  \<open>reset_index(drop=True)\<close>, so the label of a row is its position. The similarity
  matrix is a parameter of \<open>recommend\<close>, as in the source: it is the list of its rows.
  A finite floating-point number is a rational number, and two such numbers compare
  as the rationals do, so a score is a \<open>rat\<close>.

  Three functions of the libraries are parameters of the embedding, since their
  tables and their floating-point arithmetic are not part of the repository:
  \<^item> \<open>lower\<close>, the lowercasing \<open>str.lower\<close> of Python (the Unicode case mapping);
  \<^item> \<open>round3\<close>, the rounding \<open>round(score, 3)\<close> of a \<open>numpy.float64\<close>;
  \<^item> \<open>na_values\<close>, the strings that \<open>pd.read_csv\<close> reads as a missing value.
  Every theorem below holds for all values of the parameters it mentions.
\<close>

subsection \<open>Data\<close>

text \<open>
  A Python string is the list of its code points, so that \<open>len\<close> is \<open>length\<close> and a
  slice is \<open>take\<close>. \<open>py_str\<close> writes a string of ASCII characters.
\<close>

type_synonym str = "nat list"

definition py_str :: "string \<Rightarrow> str" where
  "py_str s = map of_char s"

text \<open>A line of \<open>dataset.csv\<close>: the text of its three required fields.\<close>

record csv_row =
  Title :: str
  Overview :: str
  Poster_Url :: str

text \<open>
  A row of the data frame that \<open>load_data\<close> returns. A cell that pandas holds as NaN
  (a missing value) is \<open>None\<close>. \<open>load_data\<close> drops the rows without a title;
  \<open>compute_similarity\<close> still reckons with a missing overview (\<open>fillna('')\<close>), and
  the poster column is never cleaned.
\<close>

record movie =
  title :: str
  overview :: "str option"
  poster_url :: "str option"

text \<open>The dictionary appended to \<open>recommendations\<close> for one row.\<close>

record recommendation =
  rec_title :: str
  rec_overview :: str
  rec_poster_url :: str
  similarity_score :: rat

text \<open>The exceptions that the body of \<open>recommend\<close> can raise on these data.\<close>

datatype exn = IndexError | TypeError

subsection \<open>Loading the data\<close>

text \<open>
  A cell as \<open>pd.read_csv("dataset.csv")\<close> reads it: a field that is one of the strings
  \<open>na_values\<close> becomes NaN, any other field is kept. The empty field is in the default
  list of pandas.
\<close>

definition read_cell :: "str list \<Rightarrow> str \<Rightarrow> str option" where
  "read_cell na_values field = (if field \<in> set na_values then None else Some field)"

text \<open>
  One line through \<open>read_csv\<close>, the renaming of the columns and
  \<open>dropna(subset=['title', 'overview'])\<close>: a line without title or without overview
  is dropped.
\<close>

definition load_row :: "str list \<Rightarrow> csv_row \<Rightarrow> movie option" where
  "load_row na_values r =
     (case read_cell na_values (Title r) of
        None \<Rightarrow> None
      | Some t \<Rightarrow>
          (case read_cell na_values (Overview r) of
             None \<Rightarrow> None
           | Some ov \<Rightarrow>
               Some \<lparr>title = t, overview = Some ov,
                     poster_url = read_cell na_values (Poster_Url r)\<rparr>))"

text \<open>
  \<open>load_data\<close> on a file that exists and has the three columns, given as the list
  of its lines: the rows that are kept, in the order of the file, and \<open>None\<close> when
  none is left (\<open>final_count == 0\<close>).
\<close>

definition load_data :: "str list \<Rightarrow> csv_row list \<Rightarrow> movie list option" where
  "load_data na_values rows =
     (case List.map_filter (load_row na_values) rows of
        [] \<Rightarrow> None
      | m # ms \<Rightarrow> Some (m # ms))"

subsection \<open>Title lookup\<close>

text \<open>
  \<open>df[df['title'].str.lower() == movie_title.lower()]\<close>: the positions of the rows
  that the boolean mask keeps, in corpus order. Both sides are lowercased by the
  same function.
\<close>

definition movie_matches :: "(str \<Rightarrow> str) \<Rightarrow> str \<Rightarrow> movie list \<Rightarrow> nat list" where
  "movie_matches lower movie_title df =
     filter (\<lambda>i. lower (title (df ! i)) = lower movie_title) [0..<length df]"

subsection \<open>Ranking\<close>

text \<open>\<open>list(enumerate(row))\<close>.\<close>

definition distances :: "rat list \<Rightarrow> (nat \<times> rat) list" where
  "distances row = zip [0..<length row] row"

text \<open>
  \<open>sorted(distances, key=lambda x: x[1], reverse=True)\<close>. Python's sort is stable, also
  with \<open>reverse=True\<close>: elements with equal keys keep their order. \<open>sort_key\<close> is the
  stable insertion sort of the list library, here by descending score.
\<close>

definition sorted_reverse :: "(nat \<times> rat) list \<Rightarrow> (nat \<times> rat) list" where
  "sorted_reverse ds = sort_key (\<lambda>x. - snd x) ds"

text \<open>The slice \<open>[1:6]\<close>.\<close>

definition slice_1_6 :: "'a list \<Rightarrow> 'a list" where
  "slice_1_6 xs = take 5 (drop 1 xs)"

definition sorted_distances :: "rat list \<Rightarrow> (nat \<times> rat) list" where
  "sorted_distances row = slice_1_6 (sorted_reverse (distances row))"

subsection \<open>Result shaping\<close>

text \<open>\<open>df.iloc[i]\<close> raises IndexError past the last row.\<close>

definition iloc :: "movie list \<Rightarrow> nat \<Rightarrow> exn + movie" where
  "iloc df i = (if i < length df then Inr (df ! i) else Inl IndexError)"

text \<open>
  \<open>ov[:150] + "..." if len(ov) > 150 else ov\<close>. The condition is evaluated first, and
  \<open>len\<close> of a missing value (a float NaN) raises TypeError.
\<close>

fun shorten :: "str option \<Rightarrow> exn + str" where
  "shorten None = Inl TypeError"
| "shorten (Some ov) = Inr (if length ov > 150 then take 150 ov @ py_str ''...'' else ov)"

definition placeholder :: str where
  "placeholder = py_str ''https://via.placeholder.com/200x300?text=No+Image''"

text \<open>\<open>p if pd.notna(p) else placeholder\<close>.\<close>

fun resolve_poster :: "str option \<Rightarrow> str" where
  "resolve_poster (Some p) = p"
| "resolve_poster None = placeholder"

text \<open>The dictionary of one row; \<open>round3 score\<close> is \<open>round(score, 3)\<close>.\<close>

definition make_recommendation :: "(rat \<Rightarrow> rat) \<Rightarrow> movie \<Rightarrow> rat \<Rightarrow> exn + recommendation" where
  "make_recommendation round3 movie_data score =
     (case shorten (overview movie_data) of
        Inl e \<Rightarrow> Inl e
      | Inr ov \<Rightarrow>
          Inr \<lparr>rec_title = title movie_data,
               rec_overview = ov,
               rec_poster_url = resolve_poster (poster_url movie_data),
               similarity_score = round3 score\<rparr>)"

text \<open>
  The loop \<open>for i, score in sorted_distances\<close>, with the list \<open>recommendations\<close> as
  accumulator. The first exception ends it.
\<close>

fun collect ::
  "(rat \<Rightarrow> rat) \<Rightarrow> movie list \<Rightarrow> (nat \<times> rat) list \<Rightarrow> recommendation list \<Rightarrow>
   exn + recommendation list"
where
  "collect round3 df [] recommendations = Inr recommendations"
| "collect round3 df ((i, score) # rest) recommendations =
     (case iloc df i of
        Inl e \<Rightarrow> Inl e
      | Inr movie_data \<Rightarrow>
          (case make_recommendation round3 movie_data score of
             Inl e \<Rightarrow> Inl e
           | Inr r \<Rightarrow> collect round3 df rest (recommendations @ [r])))"

subsection \<open>The query\<close>

text \<open>
  The body of the \<open>try\<close> block. An empty selection returns the empty list;
  otherwise \<open>index\<close> is the first selected position (\<open>movie_matches.index[0]\<close>), and
  \<open>similarity_matrix[index]\<close> raises IndexError when the matrix has no such row.
\<close>

definition recommend_try ::
  "(str \<Rightarrow> str) \<Rightarrow> (rat \<Rightarrow> rat) \<Rightarrow> str \<Rightarrow> movie list \<Rightarrow> rat list list \<Rightarrow>
   exn + recommendation list"
where
  "recommend_try lower round3 movie_title df similarity_matrix =
     (case movie_matches lower movie_title df of
        [] \<Rightarrow> Inr []
      | index # _ \<Rightarrow>
          if index < length similarity_matrix
          then collect round3 df (sorted_distances (similarity_matrix ! index)) []
          else Inl IndexError)"

text \<open>
  The whole function: \<open>except Exception\<close> returns the empty list. The result is the
  outcome that the caller sees, \<open>Inl\<close> for an exception that leaves the function.
\<close>

definition recommend ::
  "(str \<Rightarrow> str) \<Rightarrow> (rat \<Rightarrow> rat) \<Rightarrow> str \<Rightarrow> movie list \<Rightarrow> rat list list \<Rightarrow>
   exn + recommendation list"
where
  "recommend lower round3 movie_title df similarity_matrix =
     (case recommend_try lower round3 movie_title df similarity_matrix of
        Inl e \<Rightarrow> Inr []
      | Inr recommendations \<Rightarrow> Inr recommendations)"

text \<open>
  The value of the local variable \<open>sorted_distances\<close> in a call that reaches the
  loop, and the empty list in a call that does not: the ranked positions with their
  unrounded scores.
\<close>

definition ranking ::
  "(str \<Rightarrow> str) \<Rightarrow> str \<Rightarrow> movie list \<Rightarrow> rat list list \<Rightarrow> (nat \<times> rat) list"
where
  "ranking lower movie_title df similarity_matrix =
     (case movie_matches lower movie_title df of
        [] \<Rightarrow> []
      | index # _ \<Rightarrow>
          if index < length similarity_matrix
          then sorted_distances (similarity_matrix ! index)
          else [])"

subsection \<open>A small corpus\<close>

text \<open>
  The examples below use text whose code points are below 256. On such text
  \<open>str.lower\<close> moves \<open>A\<close> to \<open>Z\<close> (65 to 90) and the capital letters of Latin-1 (192 to
  222 without the multiplication sign 215) up by 32 and keeps every other code
  point.
\<close>

definition lower_latin1 :: "str \<Rightarrow> str" where
  "lower_latin1 s =
     map (\<lambda>n. if (65 \<le> n \<and> n \<le> 90) \<or> (192 \<le> n \<and> n \<le> 214) \<or> (216 \<le> n \<and> n \<le> 222)
              then n + 32 else n) s"

text \<open>
  The scores of the examples are 0 and 1, which \<open>round(score, 3)\<close> returns as they
  are.
\<close>

definition round3_of_0_1 :: "rat \<Rightarrow> rat" where
  "round3_of_0_1 score = score"

text \<open>
  A file of three lines: \<open>A\<close> and \<open>B\<close> have the same overview, \<open>C\<close> shares no term with
  them and has an overview of 160 characters. The poster field of \<open>B\<close> and of \<open>C\<close> is
  empty. \<open>corpus3\<close> is the data frame that \<open>load_data\<close> makes of it, and \<open>matrix3\<close> the
  cosine similarity of the overviews: 1 between equal overviews, 0 between
  unrelated ones.
\<close>

definition csv3 :: "csv_row list" where
  "csv3 =
     [\<lparr>Title = py_str ''A'', Overview = py_str ''a shared plot about space travel'',
       Poster_Url = py_str ''a.jpg''\<rparr>,
      \<lparr>Title = py_str ''B'', Overview = py_str ''a shared plot about space travel'',
       Poster_Url = py_str ''''\<rparr>,
      \<lparr>Title = py_str ''C'', Overview = replicate 160 99, Poster_Url = py_str ''''\<rparr>]"

definition corpus3 :: "movie list" where
  "corpus3 =
     [\<lparr>title = py_str ''A'', overview = Some (py_str ''a shared plot about space travel''),
       poster_url = Some (py_str ''a.jpg'')\<rparr>,
      \<lparr>title = py_str ''B'', overview = Some (py_str ''a shared plot about space travel''),
       poster_url = None\<rparr>,
      \<lparr>title = py_str ''C'', overview = Some (replicate 160 99), poster_url = None\<rparr>]"

definition matrix3 :: "rat list list" where
  "matrix3 = [[1, 1, 0], [1, 1, 0], [0, 0, 1]]"

text \<open>
  A data frame where two rows have the same lowercased title, one of them with a
  capital letter outside ASCII (201, the capital of 233).
\<close>

definition corpus_dup :: "movie list" where
  "corpus_dup =
     [\<lparr>title = py_str ''Alien'', overview = Some (py_str ''x''), poster_url = None\<rparr>,
      \<lparr>title = [201] @ py_str ''cole'', overview = Some (py_str ''y''), poster_url = None\<rparr>,
      \<lparr>title = [233] @ py_str ''COLE'', overview = Some (py_str ''z''), poster_url = None\<rparr>]"

section \<open>Properties\<close>

subsection \<open>The loop\<close>

lemma collect_length:
  "collect round3 df ps acc = Inr rs \<Longrightarrow> length rs = length acc + length ps"
proof (induction ps arbitrary: acc)
  case Nil
  then show ?case by simp
next
  case (Cons p ps)
  obtain i s where p: "p = (i, s)" by (cases p)
  from Cons.prems p obtain m r where
    "iloc df i = Inr m" "make_recommendation round3 m s = Inr r"
    "collect round3 df ps (acc @ [r]) = Inr rs"
    by (auto split: sum.splits)
  with Cons.IH [of "acc @ [r]"] show ?case by simp
qed

lemma length_slice_1_6: "length (slice_1_6 xs) = min 5 (length xs - 1)"
  by (simp add: slice_1_6_def)

lemma length_sorted_distances: "length (sorted_distances row) = min 5 (length row - 1)"
  by (simp add: sorted_distances_def length_slice_1_6 sorted_reverse_def distances_def)

lemma recommend_try_length:
  "recommend_try lower round3 q df sim = Inr rs \<Longrightarrow> length rs \<le> 5"
  by (auto simp: recommend_try_def length_sorted_distances
           split: list.splits if_splits dest!: collect_length)

subsection \<open>The results come from the ranked rows\<close>

lemma collect_all2:
  "collect round3 df ps acc = Inr rs \<Longrightarrow>
   \<exists>rs'. rs = acc @ rs' \<and>
     list_all2
       (\<lambda>p r. fst p < length df \<and> make_recommendation round3 (df ! fst p) (snd p) = Inr r)
       ps rs'"
proof (induction ps arbitrary: acc)
  case Nil
  then show ?case by simp
next
  case (Cons p ps)
  obtain i s where p: "p = (i, s)" by (cases p)
  from Cons.prems p obtain r where
    i: "i < length df" and r: "make_recommendation round3 (df ! i) s = Inr r"
    and rest: "collect round3 df ps (acc @ [r]) = Inr rs"
    by (auto simp: iloc_def split: sum.splits if_splits)
  from Cons.IH [OF rest] obtain rs' where
    "rs = (acc @ [r]) @ rs'"
    "list_all2
       (\<lambda>p r. fst p < length df \<and> make_recommendation round3 (df ! fst p) (snd p) = Inr r)
       ps rs'"
    by blast
  with i r p show ?case by simp
qed

lemma recommend_try_all2:
  "recommend_try lower round3 q df sim = Inr rs \<Longrightarrow>
   list_all2
     (\<lambda>p r. fst p < length df \<and> make_recommendation round3 (df ! fst p) (snd p) = Inr r)
     (ranking lower q df sim) rs"
  by (auto simp: recommend_try_def ranking_def split: list.splits if_splits dest: collect_all2)

lemma recommend_all2:
  assumes "recommend lower round3 q df sim = Inr rs" and "rs \<noteq> []"
  shows "list_all2
     (\<lambda>p r. fst p < length df \<and> make_recommendation round3 (df ! fst p) (snd p) = Inr r)
     (ranking lower q df sim) rs"
  using assms by (auto simp: recommend_def split: sum.splits dest: recommend_try_all2)

lemma recommend_nth:
  assumes "recommend lower round3 q df sim = Inr rs" and "j < length rs"
  shows "j < length (ranking lower q df sim) \<and>
     fst (ranking lower q df sim ! j) < length df \<and>
     make_recommendation round3 (df ! fst (ranking lower q df sim ! j))
       (snd (ranking lower q df sim ! j)) = Inr (rs ! j)"
proof -
  from assms have "rs \<noteq> []" by auto
  from recommend_all2 [OF assms(1) this] assms(2) show ?thesis
    by (auto simp: list_all2_conv_all_nth)
qed

lemma make_recommendation_fields:
  assumes "make_recommendation round3 m s = Inr r"
  shows "\<exists>ov. overview m = Some ov \<and>
           rec_overview r = (if 150 < length ov then take 150 ov @ py_str ''...'' else ov)"
    and "rec_poster_url r = (case poster_url m of None \<Rightarrow> placeholder | Some p \<Rightarrow> p)"
    and "rec_title r = title m"
  using assms
  by (cases "overview m"; cases "poster_url m"; auto simp: make_recommendation_def)+

subsection \<open>The order of the ranking\<close>

lemma insort_ranked:
  assumes "sorted_wrt (\<lambda>p p'. snd p' < snd p \<or> (snd p' = snd p \<and> fst p < fst p')) xs"
    and "\<forall>y\<in>set xs. fst x < fst y"
  shows "sorted_wrt (\<lambda>p p'. snd p' < snd p \<or> (snd p' = snd p \<and> fst p < fst p'))
           (insort_key (\<lambda>p. - snd p) x (xs :: (nat \<times> rat) list))"
  using assms
proof (induction xs)
  case Nil
  then show ?case by simp
next
  case (Cons y ys)
  then show ?case by (fastforce simp: set_insort_key)
qed

lemma sort_ranked:
  "sorted_wrt (\<lambda>p p'. fst p < fst p') xs \<Longrightarrow>
   sorted_wrt (\<lambda>p p'. snd p' < snd p \<or> (snd p' = snd p \<and> fst p < fst p'))
     (sort_key (\<lambda>p. - snd p) (xs :: (nat \<times> rat) list))"
proof (induction xs)
  case Nil
  then show ?case by simp
next
  case (Cons x xs)
  then show ?case by (auto intro!: insort_ranked)
qed

lemma distances_increasing: "sorted_wrt (\<lambda>p p'. fst p < fst p') (distances row)"
proof -
  have "sorted_wrt (<) (map fst (distances row))"
    by (simp add: distances_def)
  then show ?thesis by (simp add: sorted_wrt_map)
qed

lemma sorted_distances_ranked:
  "sorted_wrt (\<lambda>p p'. snd p' < snd p \<or> (snd p' = snd p \<and> fst p < fst p'))
     (sorted_distances row)"
  unfolding sorted_distances_def slice_1_6_def sorted_reverse_def
  by (intro sorted_wrt_take sorted_wrt_drop sort_ranked distances_increasing)

subsection \<open>The selection by title\<close>

lemma movie_matches_Nil:
  "movie_matches lower q df = [] \<longleftrightarrow> (\<forall>m\<in>set df. lower (title m) \<noteq> lower q)"
  by (auto simp: movie_matches_def filter_empty_conv all_set_conv_all_nth)

lemma upt_split_prefix:
  assumes "[0..<n] = us @ i # vs"
  shows "us = [0..<i]"
proof -
  have len: "length us < n"
    using arg_cong [OF assms, of length] by simp
  have "[0..<n] ! length us = i"
    by (simp add: assms)
  with len have i: "i = length us" by simp
  have "us = take (length us) [0..<n]"
    by (simp add: assms)
  also have "\<dots> = [0..<i]"
    using len i by (simp add: take_upt)
  finally show ?thesis .
qed

lemma movie_matches_Cons:
  assumes "movie_matches lower q df = i # rest"
  shows "i < length df \<and> lower (title (df ! i)) = lower q \<and>
         (\<forall>j<i. lower (title (df ! j)) \<noteq> lower q)"
proof -
  from assms obtain us vs where
    split: "[0..<length df] = us @ i # vs"
    and before: "\<forall>u\<in>set us. lower (title (df ! u)) \<noteq> lower q"
    and here: "lower (title (df ! i)) = lower q"
    unfolding movie_matches_def filter_eq_Cons_iff by blast
  have "i \<in> set [0..<length df]"
    by (simp add: split)
  then have "i < length df" by simp
  moreover from upt_split_prefix [OF split] before
  have "\<forall>j<i. lower (title (df ! j)) \<noteq> lower q" by simp
  ultimately show ?thesis using here by blast
qed

lemma movie_matches_first:
  assumes "i < length df" and "lower (title (df ! i)) = lower q"
    and "\<forall>j<i. lower (title (df ! j)) \<noteq> lower q"
  shows "\<exists>rest. movie_matches lower q df = i # rest"
proof -
  have "[0..<length df] = [0..<i] @ [i..<length df]"
    using assms(1) upt_add_eq_append [of 0 i "length df - i"] by simp
  then have "[0..<length df] = [0..<i] @ i # [Suc i..<length df]"
    using assms(1) by (simp add: upt_conv_Cons)
  moreover have "filter (\<lambda>k. lower (title (df ! k)) = lower q) [0..<i] = []"
    using assms(3) by (simp add: filter_empty_conv)
  ultimately show ?thesis
    using assms(2) by (simp add: movie_matches_def)
qed

lemma first_match_exists:
  assumes "\<exists>m\<in>set (df :: movie list). (lower :: str \<Rightarrow> str) (title m) = lower q"
  shows "\<exists>i<length df. lower (title (df ! i)) = lower q \<and>
           (\<forall>j<i. lower (title (df ! j)) \<noteq> lower q)"
proof -
  from assms have "movie_matches lower q df \<noteq> []"
    by (simp add: movie_matches_Nil)
  then obtain i rest where "movie_matches lower q df = i # rest"
    by (cases "movie_matches lower q df") auto
  from movie_matches_Cons [OF this] show ?thesis by blast
qed

lemma movie_matches_lower:
  "lower q = lower q' \<Longrightarrow> movie_matches lower q df = movie_matches lower q' df"
  by (simp add: movie_matches_def)

lemma recommend_lower:
  "lower q = lower q' \<Longrightarrow> recommend lower round3 q df sim = recommend lower round3 q' df sim"
  by (simp add: recommend_def recommend_try_def movie_matches_lower [of lower q q'])

lemma recommend_try_not_found:
  "movie_matches lower q df = [] \<Longrightarrow> recommend_try lower round3 q df sim = Inr []"
  by (simp add: recommend_try_def)

subsection \<open>Calls that raise nothing\<close>

lemma collect_succeeds:
  assumes "\<forall>p\<in>set ps. fst p < length df" and "\<forall>m\<in>set df. overview m \<noteq> None"
  shows "\<exists>rs. collect round3 df ps acc = Inr rs"
  using assms(1)
proof (induction ps arbitrary: acc)
  case Nil
  then show ?case by simp
next
  case (Cons p ps)
  obtain i s where p: "p = (i, s)" by (cases p)
  with Cons.prems have i: "i < length df" by simp
  with assms(2) obtain ov where "overview (df ! i) = Some ov"
    by (metis nth_mem not_None_eq)
  then obtain r where "make_recommendation round3 (df ! i) s = Inr r"
    by (simp add: make_recommendation_def)
  with Cons p i show ?case by (simp add: iloc_def)
qed

lemma sorted_distances_positions:
  assumes "p \<in> set (sorted_distances row)"
  shows "fst p < length row"
proof -
  from assms have "p \<in> set (distances row)"
    by (auto simp: sorted_distances_def slice_1_6_def sorted_reverse_def
             dest!: in_set_takeD in_set_dropD)
  then have "fst p \<in> set [0..<length row]"
    unfolding distances_def by (metis prod.collapse set_zip_leftD)
  then show ?thesis by simp
qed

lemma recommend_try_built:
  assumes rows: "length sim = length df" "\<forall>row\<in>set sim. length row = length df"
    and valid: "\<forall>m\<in>set df. overview m \<noteq> None"
    and found: "movie_matches lower q df \<noteq> []"
  shows "\<exists>rs. recommend_try lower round3 q df sim = Inr rs \<and>
           length rs = min 5 (length df - 1)"
proof -
  from found obtain i rest where m: "movie_matches lower q df = i # rest"
    by (cases "movie_matches lower q df") auto
  from movie_matches_Cons [OF m] rows(1) have i: "i < length sim" by simp
  with rows(2) have row: "length (sim ! i) = length df" by simp
  have "\<forall>p\<in>set (sorted_distances (sim ! i)). fst p < length df"
    using sorted_distances_positions [of _ "sim ! i"] row by auto
  from collect_succeeds [OF this valid, of round3 "[]"] obtain rs where
    rs: "collect round3 df (sorted_distances (sim ! i)) [] = Inr rs" by blast
  from collect_length [OF rs] have "length rs = min 5 (length df - 1)"
    by (simp add: length_sorted_distances row)
  with rs m i show ?thesis by (simp add: recommend_try_def)
qed

subsection \<open>The loaded data frame\<close>

lemma load_data_rows:
  assumes "load_data na_values rows = Some df" and "m \<in> set df"
  shows "\<exists>r\<in>set rows. load_row na_values r = Some m"
proof -
  from assms(1) have "df = List.map_filter (load_row na_values) rows"
    by (auto simp: load_data_def split: list.splits)
  with assms(2) show ?thesis
    by (auto simp: List.map_filter_def)
qed

lemma load_row_fields:
  assumes "load_row na_values r = Some m"
  shows "title m = Title r" and "overview m = Some (Overview r)"
    and "poster_url m = read_cell na_values (Poster_Url r)"
  using assms
  by (auto simp: load_row_def read_cell_def split: option.splits if_splits)

lemma read_cell_not_empty:
  "[] \<in> set na_values \<Longrightarrow> read_cell na_values field \<noteq> Some []"
  by (auto simp: read_cell_def)

lemma placeholder_not_empty: "placeholder \<noteq> []"
  by (simp add: placeholder_def py_str_def)

section \<open>The claims\<close>

subsection \<open>The queried record among the results\<close>

text \<open>
  C1: the queried record is meant to stay out of the results, and the slice \<open>[1:6]\<close>
  drops the head of the sorted list for that. The head is the queried record only
  when no earlier position has the same score. In \<open>corpus3\<close>, the data frame loaded
  from \<open>csv3\<close>, the record \<open>B\<close> at position 1 has the overview of \<open>A\<close> at position 0,
  so both score 1 in the row of \<open>B\<close>; the stable sort leaves position 0 first, the
  slice drops \<open>A\<close>, and the query for \<open>B\<close> returns \<open>B\<close> itself as its first
  recommendation.
\<close>

theorem recommend_returns_queried_record:
  "load_data [py_str ''''] csv3 = Some corpus3 \<and>
   movie_matches lower_latin1 (py_str ''B'') corpus3 = [1] \<and>
   ranking lower_latin1 (py_str ''B'') corpus3 matrix3 = [(1, 1), (2, 0)] \<and>
   recommend lower_latin1 round3_of_0_1 (py_str ''B'') corpus3 matrix3 =
     Inr [\<lparr>rec_title = py_str ''B'',
            rec_overview = py_str ''a shared plot about space travel'',
            rec_poster_url = placeholder, similarity_score = 1\<rparr>,
          \<lparr>rec_title = py_str ''C'', rec_overview = replicate 150 99 @ py_str ''...'',
            rec_poster_url = placeholder, similarity_score = 0\<rparr>]"
  by code_simp

subsection \<open>The order of the results\<close>

text \<open>
  C2: a non-empty result of \<open>recommend\<close> is, element by element, the shaping of the
  rows at the positions of \<open>ranking\<close>, and \<open>ranking\<close> is in descending order of the
  unrounded score, a smaller position before a greater one where the scores are
  equal. (The empty result has no two elements to compare.) The order is a
  function of the arguments alone.
\<close>

theorem recommend_ranked:
  assumes "recommend lower round3 q df sim = Inr rs" and "rs \<noteq> []"
  shows "list_all2
           (\<lambda>p r. fst p < length df \<and>
                  make_recommendation round3 (df ! fst p) (snd p) = Inr r)
           (ranking lower q df sim) rs \<and>
         sorted_wrt (\<lambda>p p'. snd p' < snd p \<or> (snd p' = snd p \<and> fst p < fst p'))
           (ranking lower q df sim)"
proof
  show "list_all2
           (\<lambda>p r. fst p < length df \<and>
                  make_recommendation round3 (df ! fst p) (snd p) = Inr r)
           (ranking lower q df sim) rs"
    using assms by (rule recommend_all2)
  show "sorted_wrt (\<lambda>p p'. snd p' < snd p \<or> (snd p' = snd p \<and> fst p < fst p'))
           (ranking lower q df sim)"
    by (simp add: ranking_def sorted_distances_ranked split: list.splits)
qed

text \<open>
  The query for \<open>C\<close>: the rows \<open>A\<close> and \<open>B\<close> both score 0 and come back in corpus
  order.
\<close>

theorem recommend_ranked_witness:
  "recommend lower_latin1 round3_of_0_1 (py_str ''C'') corpus3 matrix3 =
     Inr [\<lparr>rec_title = py_str ''A'',
            rec_overview = py_str ''a shared plot about space travel'',
            rec_poster_url = py_str ''a.jpg'', similarity_score = 0\<rparr>,
          \<lparr>rec_title = py_str ''B'',
            rec_overview = py_str ''a shared plot about space travel'',
            rec_poster_url = placeholder, similarity_score = 0\<rparr>] \<and>
   ranking lower_latin1 (py_str ''C'') corpus3 matrix3 = [(0, 0), (1, 0)] \<and>
   list_all2
     (\<lambda>p r. fst p < length corpus3 \<and>
            make_recommendation round3_of_0_1 (corpus3 ! fst p) (snd p) = Inr r)
     (ranking lower_latin1 (py_str ''C'') corpus3 matrix3)
     [\<lparr>rec_title = py_str ''A'',
            rec_overview = py_str ''a shared plot about space travel'',
            rec_poster_url = py_str ''a.jpg'', similarity_score = 0\<rparr>,
          \<lparr>rec_title = py_str ''B'',
            rec_overview = py_str ''a shared plot about space travel'',
            rec_poster_url = placeholder, similarity_score = 0\<rparr>] \<and>
   sorted_wrt (\<lambda>p p'. snd p' < snd p \<or> (snd p' = snd p \<and> fst p < fst p'))
     (ranking lower_latin1 (py_str ''C'') corpus3 matrix3)"
proof -
  have result: "recommend lower_latin1 round3_of_0_1 (py_str ''C'') corpus3 matrix3 =
     Inr [\<lparr>rec_title = py_str ''A'',
            rec_overview = py_str ''a shared plot about space travel'',
            rec_poster_url = py_str ''a.jpg'', similarity_score = 0\<rparr>,
          \<lparr>rec_title = py_str ''B'',
            rec_overview = py_str ''a shared plot about space travel'',
            rec_poster_url = placeholder, similarity_score = 0\<rparr>]"
    by code_simp
  have nonempty:
    "[\<lparr>rec_title = py_str ''A'',
            rec_overview = py_str ''a shared plot about space travel'',
            rec_poster_url = py_str ''a.jpg'', similarity_score = 0\<rparr>,
          \<lparr>rec_title = py_str ''B'',
            rec_overview = py_str ''a shared plot about space travel'',
            rec_poster_url = placeholder, similarity_score = 0\<rparr>] \<noteq> []"
    by simp
  have positions: "ranking lower_latin1 (py_str ''C'') corpus3 matrix3 = [(0, 0), (1, 0)]"
    by code_simp
  from recommend_ranked [OF result nonempty] result positions show ?thesis
    by (intro conjI) (rule result, rule positions, blast, blast)
qed

subsection \<open>The poster\<close>

text \<open>
  C3: the data frame of the program is the one that \<open>load_data\<close> returns, and
  \<open>read_csv\<close> reads an empty field as a missing value. For such a data frame, every
  returned recommendation whose line in the file has an empty poster field, and
  every one whose row has a missing or an empty poster, carries the placeholder;
  the poster of a recommendation is never the empty string.
\<close>

theorem recommend_poster_placeholder:
  assumes "[] \<in> set na_values"
    and "load_data na_values rows = Some df"
    and "recommend lower round3 q df sim = Inr rs" and "j < length rs"
  shows "(\<exists>r\<in>set rows.
            load_row na_values r = Some (df ! fst (ranking lower q df sim ! j)) \<and>
            (Poster_Url r = [] \<longrightarrow> rec_poster_url (rs ! j) = placeholder)) \<and>
         (poster_url (df ! fst (ranking lower q df sim ! j)) = None \<or>
          poster_url (df ! fst (ranking lower q df sim ! j)) = Some [] \<longrightarrow>
            rec_poster_url (rs ! j) = placeholder) \<and>
         rec_poster_url (rs ! j) \<noteq> []"
proof -
  define m where "m = df ! fst (ranking lower q df sim ! j)"
  from recommend_nth [OF assms(3,4)] have
    inside: "fst (ranking lower q df sim ! j) < length df"
    and made: "make_recommendation round3 m (snd (ranking lower q df sim ! j)) = Inr (rs ! j)"
    by (simp_all add: m_def)
  from made have shaped:
    "rec_poster_url (rs ! j) = (case poster_url m of None \<Rightarrow> placeholder | Some p \<Rightarrow> p)"
    by (rule make_recommendation_fields(2))
  from inside have "m \<in> set df"
    by (simp add: m_def)
  from load_data_rows [OF assms(2) this] obtain r where
    r: "r \<in> set rows" and loaded: "load_row na_values r = Some m"
    by blast
  have cell: "poster_url m = read_cell na_values (Poster_Url r)"
    using loaded by (rule load_row_fields(3))
  have stored: "poster_url m \<noteq> Some []"
    using read_cell_not_empty [OF assms(1)] by (simp add: cell)
  have empty_field: "Poster_Url r = [] \<longrightarrow> rec_poster_url (rs ! j) = placeholder"
    using assms(1) by (simp add: shaped cell read_cell_def)
  have missing: "poster_url m = None \<or> poster_url m = Some [] \<longrightarrow>
      rec_poster_url (rs ! j) = placeholder"
    using stored by (auto simp: shaped)
  have never: "rec_poster_url (rs ! j) \<noteq> []"
    using stored placeholder_not_empty by (cases "poster_url m") (simp_all add: shaped)
  from r loaded empty_field missing never show ?thesis
    unfolding m_def by blast
qed

text \<open>
  The first result of the query for \<open>A\<close> is the row \<open>B\<close>, whose poster field in \<open>csv3\<close>
  is empty.
\<close>

theorem recommend_poster_placeholder_witness:
  "[] \<in> set [py_str ''''] \<and>
   load_data [py_str ''''] csv3 = Some corpus3 \<and>
   recommend lower_latin1 round3_of_0_1 (py_str ''A'') corpus3 matrix3 =
     Inr [\<lparr>rec_title = py_str ''B'',
            rec_overview = py_str ''a shared plot about space travel'',
            rec_poster_url = placeholder, similarity_score = 1\<rparr>,
          \<lparr>rec_title = py_str ''C'', rec_overview = replicate 150 99 @ py_str ''...'',
            rec_poster_url = placeholder, similarity_score = 0\<rparr>] \<and>
   Poster_Url (csv3 ! 1) = [] \<and>
   load_row [py_str ''''] (csv3 ! 1) =
     Some (corpus3 ! fst (ranking lower_latin1 (py_str ''A'') corpus3 matrix3 ! 0)) \<and>
   poster_url (corpus3 ! fst (ranking lower_latin1 (py_str ''A'') corpus3 matrix3 ! 0)) = None \<and>
   rec_poster_url ([\<lparr>rec_title = py_str ''B'',
            rec_overview = py_str ''a shared plot about space travel'',
            rec_poster_url = placeholder, similarity_score = 1\<rparr>,
          \<lparr>rec_title = py_str ''C'', rec_overview = replicate 150 99 @ py_str ''...'',
            rec_poster_url = placeholder, similarity_score = 0\<rparr>] ! 0) = placeholder \<and>
   rec_poster_url ([\<lparr>rec_title = py_str ''B'',
            rec_overview = py_str ''a shared plot about space travel'',
            rec_poster_url = placeholder, similarity_score = 1\<rparr>,
          \<lparr>rec_title = py_str ''C'', rec_overview = replicate 150 99 @ py_str ''...'',
            rec_poster_url = placeholder, similarity_score = 0\<rparr>] ! 0) \<noteq> []"
proof -
  have empty_is_na: "[] \<in> set [py_str '''']"
    by code_simp
  have loaded: "load_data [py_str ''''] csv3 = Some corpus3"
    by code_simp
  have result: "recommend lower_latin1 round3_of_0_1 (py_str ''A'') corpus3 matrix3 =
     Inr [\<lparr>rec_title = py_str ''B'',
            rec_overview = py_str ''a shared plot about space travel'',
            rec_poster_url = placeholder, similarity_score = 1\<rparr>,
          \<lparr>rec_title = py_str ''C'', rec_overview = replicate 150 99 @ py_str ''...'',
            rec_poster_url = placeholder, similarity_score = 0\<rparr>]"
    by code_simp
  have first:
    "0 < length [\<lparr>rec_title = py_str ''B'',
            rec_overview = py_str ''a shared plot about space travel'',
            rec_poster_url = placeholder, similarity_score = 1\<rparr>,
          \<lparr>rec_title = py_str ''C'', rec_overview = replicate 150 99 @ py_str ''...'',
            rec_poster_url = placeholder, similarity_score = 0\<rparr>]"
    by simp
  have field: "Poster_Url (csv3 ! 1) = []"
    by code_simp
  have line: "load_row [py_str ''''] (csv3 ! 1) =
     Some (corpus3 ! fst (ranking lower_latin1 (py_str ''A'') corpus3 matrix3 ! 0))"
    by code_simp
  have source:
    "poster_url (corpus3 ! fst (ranking lower_latin1 (py_str ''A'') corpus3 matrix3 ! 0)) = None"
    by code_simp
  from recommend_poster_placeholder [OF empty_is_na loaded result first] source
  have "rec_poster_url ([\<lparr>rec_title = py_str ''B'',
            rec_overview = py_str ''a shared plot about space travel'',
            rec_poster_url = placeholder, similarity_score = 1\<rparr>,
          \<lparr>rec_title = py_str ''C'', rec_overview = replicate 150 99 @ py_str ''...'',
            rec_poster_url = placeholder, similarity_score = 0\<rparr>] ! 0) = placeholder \<and>
   rec_poster_url ([\<lparr>rec_title = py_str ''B'',
            rec_overview = py_str ''a shared plot about space travel'',
            rec_poster_url = placeholder, similarity_score = 1\<rparr>,
          \<lparr>rec_title = py_str ''C'', rec_overview = replicate 150 99 @ py_str ''...'',
            rec_poster_url = placeholder, similarity_score = 0\<rparr>] ! 0) \<noteq> []"
    by blast
  with empty_is_na loaded result field line source show ?thesis by blast
qed

subsection \<open>A title that matches no row\<close>

text \<open>
  The claim C4 as the specification states it fails: for a title that no row has,
  the selection is empty and \<open>recommend\<close> returns the empty list, a normal result
  and no error.
\<close>

theorem recommend_not_found_counterexample:
  "movie_matches lower_latin1 (py_str ''Nonexistent Title'') corpus3 = [] \<and>
   recommend_try lower_latin1 round3_of_0_1 (py_str ''Nonexistent Title'') corpus3 matrix3 =
     Inr [] \<and>
   recommend lower_latin1 round3_of_0_1 (py_str ''Nonexistent Title'') corpus3 matrix3 =
     Inr []"
  by code_simp

text \<open>
  C4, amended: for every data frame, matrix and title that equals no title of the
  data frame after lowercasing, the body of \<open>recommend\<close> raises nothing and
  \<open>recommend\<close> returns the empty list as its normal result.
\<close>

theorem recommend_not_found_returns_empty:
  assumes "\<forall>m\<in>set df. lower (title m) \<noteq> lower q"
  shows "recommend_try lower round3 q df sim = Inr [] \<and>
         recommend lower round3 q df sim = Inr []"
  using assms movie_matches_Nil [of lower q df]
  by (simp add: recommend_def recommend_try_not_found)

text \<open>No row of \<open>corpus3\<close> has the title \<open>Zodiac\<close>.\<close>

theorem recommend_not_found_returns_empty_witness:
  "list_all (\<lambda>m. lower_latin1 (title m) \<noteq> lower_latin1 (py_str ''Zodiac'')) corpus3 \<and>
   recommend_try lower_latin1 round3_of_0_1 (py_str ''Zodiac'') corpus3 matrix3 = Inr [] \<and>
   recommend lower_latin1 round3_of_0_1 (py_str ''Zodiac'') corpus3 matrix3 = Inr []"
proof -
  have absent: "\<forall>m\<in>set corpus3. lower_latin1 (title m) \<noteq> lower_latin1 (py_str ''Zodiac'')"
    by code_simp
  then have
    "list_all (\<lambda>m. lower_latin1 (title m) \<noteq> lower_latin1 (py_str ''Zodiac'')) corpus3"
    by (simp only: list_all_iff)
  with recommend_not_found_returns_empty [OF absent, of round3_of_0_1 matrix3]
  show ?thesis by blast
qed

subsection \<open>The overview\<close>

text \<open>
  C5: every returned recommendation comes from a row with an overview; when the
  overview has more than 150 characters the result is its first 150 characters
  followed by the three dots, of length 150 + 3, and otherwise (150 characters
  included) it is the overview unchanged.
\<close>

theorem recommend_overview_truncated:
  assumes "recommend lower round3 q df sim = Inr rs" and "j < length rs"
  shows "\<exists>ov. overview (df ! fst (ranking lower q df sim ! j)) = Some ov \<and>
           rec_overview (rs ! j) =
             (if 150 < length ov then take 150 ov @ py_str ''...'' else ov) \<and>
           length (rec_overview (rs ! j)) =
             (if 150 < length ov then 150 + length (py_str ''...'') else length ov) \<and>
           length (py_str ''...'') = 3"
proof -
  from recommend_nth [OF assms] make_recommendation_fields(1) obtain ov where
    "overview (df ! fst (ranking lower q df sim ! j)) = Some ov"
    "rec_overview (rs ! j) = (if 150 < length ov then take 150 ov @ py_str ''...'' else ov)"
    by blast
  then show ?thesis by (auto simp: py_str_def)
qed

text \<open>
  The second result of the query for \<open>A\<close> is the row \<open>C\<close> with its 160 characters.
\<close>

theorem recommend_overview_truncated_witness:
  "recommend lower_latin1 round3_of_0_1 (py_str ''A'') corpus3 matrix3 =
     Inr [\<lparr>rec_title = py_str ''B'',
            rec_overview = py_str ''a shared plot about space travel'',
            rec_poster_url = placeholder, similarity_score = 1\<rparr>,
          \<lparr>rec_title = py_str ''C'', rec_overview = replicate 150 99 @ py_str ''...'',
            rec_poster_url = placeholder, similarity_score = 0\<rparr>] \<and>
   overview (corpus3 ! fst (ranking lower_latin1 (py_str ''A'') corpus3 matrix3 ! 1)) =
     Some (replicate 160 99) \<and>
   (\<exists>ov. overview (corpus3 ! fst (ranking lower_latin1 (py_str ''A'') corpus3 matrix3 ! 1)) =
        Some ov \<and>
      rec_overview ([\<lparr>rec_title = py_str ''B'',
            rec_overview = py_str ''a shared plot about space travel'',
            rec_poster_url = placeholder, similarity_score = 1\<rparr>,
          \<lparr>rec_title = py_str ''C'', rec_overview = replicate 150 99 @ py_str ''...'',
            rec_poster_url = placeholder, similarity_score = 0\<rparr>] ! 1) =
        (if 150 < length ov then take 150 ov @ py_str ''...'' else ov) \<and>
      length (rec_overview ([\<lparr>rec_title = py_str ''B'',
            rec_overview = py_str ''a shared plot about space travel'',
            rec_poster_url = placeholder, similarity_score = 1\<rparr>,
          \<lparr>rec_title = py_str ''C'', rec_overview = replicate 150 99 @ py_str ''...'',
            rec_poster_url = placeholder, similarity_score = 0\<rparr>] ! 1)) =
        (if 150 < length ov then 150 + length (py_str ''...'') else length ov) \<and>
      length (py_str ''...'') = 3)"
proof -
  have result: "recommend lower_latin1 round3_of_0_1 (py_str ''A'') corpus3 matrix3 =
     Inr [\<lparr>rec_title = py_str ''B'',
            rec_overview = py_str ''a shared plot about space travel'',
            rec_poster_url = placeholder, similarity_score = 1\<rparr>,
          \<lparr>rec_title = py_str ''C'', rec_overview = replicate 150 99 @ py_str ''...'',
            rec_poster_url = placeholder, similarity_score = 0\<rparr>]"
    by code_simp
  have second:
    "1 < length [\<lparr>rec_title = py_str ''B'',
            rec_overview = py_str ''a shared plot about space travel'',
            rec_poster_url = placeholder, similarity_score = 1\<rparr>,
          \<lparr>rec_title = py_str ''C'', rec_overview = replicate 150 99 @ py_str ''...'',
            rec_poster_url = placeholder, similarity_score = 0\<rparr>]"
    by simp
  have source:
    "overview (corpus3 ! fst (ranking lower_latin1 (py_str ''A'') corpus3 matrix3 ! 1)) =
       Some (replicate 160 99)"
    by code_simp
  from recommend_overview_truncated [OF result second] result source
  show ?thesis by blast
qed

subsection \<open>A corpus of fewer than six rows\<close>

text \<open>
  C6: for a data frame of fewer than 5 + 1 rows, all with an overview, a matrix
  with one row per record and one column per record, and a title that some row
  has after lowercasing, the body of \<open>recommend\<close> raises nothing and \<open>recommend\<close>
  returns one recommendation per row but one (none for a single row); for two
  rows it returns exactly 1.
\<close>

theorem recommend_small_corpus:
  assumes "length sim = length df" and "\<forall>row\<in>set sim. length row = length df"
    and "\<forall>m\<in>set df. overview m \<noteq> None"
    and "length df < 5 + 1"
    and "\<exists>m\<in>set df. lower (title m) = lower q"
  shows "\<exists>rs. recommend_try lower round3 q df sim = Inr rs \<and>
           recommend lower round3 q df sim = Inr rs \<and>
           length rs = length df - 1 \<and> (length df = 2 \<longrightarrow> length rs = 1)"
proof -
  from assms(5) have "movie_matches lower q df \<noteq> []"
    by (simp add: movie_matches_Nil)
  from recommend_try_built [OF assms(1-3) this, of round3] obtain rs where
    "recommend_try lower round3 q df sim = Inr rs" "length rs = min 5 (length df - 1)"
    by blast
  with assms(4) show ?thesis by (auto simp: recommend_def)
qed

text \<open>
  The first two rows of \<open>corpus3\<close>, which have the same overview, with their matrix
  of two rows and two columns.
\<close>

theorem recommend_small_corpus_witness:
  "length [[1, 1], [1, 1 :: rat]] = length (take 2 corpus3) \<and>
   list_all (\<lambda>row. length row = length (take 2 corpus3)) [[1, 1], [1, 1 :: rat]] \<and>
   list_all (\<lambda>m. overview m \<noteq> None) (take 2 corpus3) \<and>
   length (take 2 corpus3) < 5 + 1 \<and>
   list_ex (\<lambda>m. lower_latin1 (title m) = lower_latin1 (py_str ''a'')) (take 2 corpus3) \<and>
   length (take 2 corpus3) = 2 \<and>
   (\<exists>rs. recommend_try lower_latin1 round3_of_0_1 (py_str ''a'') (take 2 corpus3)
            [[1, 1], [1, 1]] = Inr rs \<and>
      recommend lower_latin1 round3_of_0_1 (py_str ''a'') (take 2 corpus3)
            [[1, 1], [1, 1]] = Inr rs \<and>
      length rs = 1)"
proof -
  have rows: "length [[1, 1], [1, 1 :: rat]] = length (take 2 corpus3)"
    by code_simp
  have columns:
    "\<forall>row\<in>set [[1, 1], [1, 1 :: rat]]. length row = length (take 2 corpus3)"
    by code_simp
  have overviews: "\<forall>m\<in>set (take 2 corpus3). overview m \<noteq> None"
    by code_simp
  have small: "length (take 2 corpus3) < 5 + 1"
    by code_simp
  have found:
    "\<exists>m\<in>set (take 2 corpus3). lower_latin1 (title m) = lower_latin1 (py_str ''a'')"
    by code_simp
  have two: "length (take 2 corpus3) = 2"
    by code_simp
  from recommend_small_corpus [OF rows columns overviews small found, of round3_of_0_1] two
  have "\<exists>rs. recommend_try lower_latin1 round3_of_0_1 (py_str ''a'') (take 2 corpus3)
            [[1, 1], [1, 1]] = Inr rs \<and>
      recommend lower_latin1 round3_of_0_1 (py_str ''a'') (take 2 corpus3)
            [[1, 1], [1, 1]] = Inr rs \<and>
      length rs = 1"
    by auto
  moreover from columns
  have "list_all (\<lambda>row. length row = length (take 2 corpus3)) [[1, 1], [1, 1 :: rat]]"
    by (simp only: list_all_iff)
  moreover from overviews have "list_all (\<lambda>m. overview m \<noteq> None) (take 2 corpus3)"
    by (simp only: list_all_iff)
  moreover from found
  have "list_ex (\<lambda>m. lower_latin1 (title m) = lower_latin1 (py_str ''a'')) (take 2 corpus3)"
    by (simp only: list_ex_iff)
  ultimately show ?thesis using rows small two by blast
qed

subsection \<open>Matching the title\<close>

text \<open>
  C7: two titles that are equal after lowercasing give the same result. When
  position \<open>i\<close> is the first row whose whole lowercased title equals the lowercased
  query, the query is answered from row \<open>i\<close> of the matrix: the ranking is that of
  \<open>similarity_matrix[i]\<close> and the result is the shaping of it, whatever rows with the
  same lowercased title follow. When no row has the lowercased title of the query,
  a row whose title only contains or resembles it is not used: the result is the
  empty list.
\<close>

theorem recommend_title_lookup:
  assumes "lower q1 = lower q2"
    and "i < length df" and "lower (title (df ! i)) = lower q"
    and "\<forall>j<i. lower (title (df ! j)) \<noteq> lower q"
    and "\<forall>m\<in>set df0. lower (title m) \<noteq> lower q0"
  shows "recommend lower round3 q1 df1 sim1 = recommend lower round3 q2 df1 sim1 \<and>
         ranking lower q df sim =
           (if i < length sim then sorted_distances (sim ! i) else []) \<and>
         recommend_try lower round3 q df sim =
           (if i < length sim then collect round3 df (sorted_distances (sim ! i)) []
            else Inl IndexError) \<and>
         recommend lower round3 q df sim =
           (if i < length sim
            then (case collect round3 df (sorted_distances (sim ! i)) [] of
                    Inl e \<Rightarrow> Inr []
                  | Inr rs \<Rightarrow> Inr rs)
            else Inr []) \<and>
         recommend_try lower round3 q0 df0 sim0 = Inr [] \<and>
         recommend lower round3 q0 df0 sim0 = Inr []"
proof -
  have same: "recommend lower round3 q1 df1 sim1 = recommend lower round3 q2 df1 sim1"
    using assms(1) by (rule recommend_lower)
  from movie_matches_first [OF assms(2-4)] obtain rest where
    selected: "movie_matches lower q df = i # rest"
    by blast
  have ranked: "ranking lower q df sim =
      (if i < length sim then sorted_distances (sim ! i) else [])"
    by (simp add: ranking_def selected)
  have body: "recommend_try lower round3 q df sim =
      (if i < length sim then collect round3 df (sorted_distances (sim ! i)) []
       else Inl IndexError)"
    by (simp add: recommend_try_def selected)
  have whole: "recommend lower round3 q df sim =
      (if i < length sim
       then (case collect round3 df (sorted_distances (sim ! i)) [] of
               Inl e \<Rightarrow> Inr []
             | Inr rs \<Rightarrow> Inr rs)
       else Inr [])"
    by (simp add: recommend_def body)
  from assms(5) have unmatched: "movie_matches lower q0 df0 = []"
    by (simp add: movie_matches_Nil)
  then have body0: "recommend_try lower round3 q0 df0 sim0 = Inr []"
    by (rule recommend_try_not_found)
  then have whole0: "recommend lower round3 q0 df0 sim0 = Inr []"
    by (simp add: recommend_def)
  from same ranked body whole body0 whole0 show ?thesis by blast
qed

text \<open>
  In \<open>corpus_dup\<close> the rows 1 and 2 have the same lowercased title. The query in
  either spelling is answered from row 1 of \<open>matrix3\<close> and not from row 2, and the
  query for \<open>Alie\<close>, a prefix of the title of row 0, selects no row.
\<close>

theorem recommend_title_lookup_witness:
  "lower_latin1 ([201] @ py_str ''COLE'') = lower_latin1 ([233] @ py_str ''cole'') \<and>
   (1 :: nat) < length corpus_dup \<and>
   lower_latin1 (title (corpus_dup ! 1)) = lower_latin1 ([233] @ py_str ''cole'') \<and>
   lower_latin1 (title (corpus_dup ! 0)) \<noteq> lower_latin1 ([233] @ py_str ''cole'') \<and>
   list_all (\<lambda>m. lower_latin1 (title m) \<noteq> lower_latin1 (py_str ''Alie'')) corpus_dup \<and>
   movie_matches lower_latin1 ([233] @ py_str ''cole'') corpus_dup = [1, 2] \<and>
   recommend lower_latin1 round3_of_0_1 ([201] @ py_str ''COLE'') corpus_dup matrix3 =
     recommend lower_latin1 round3_of_0_1 ([233] @ py_str ''cole'') corpus_dup matrix3 \<and>
   ranking lower_latin1 ([233] @ py_str ''cole'') corpus_dup matrix3 =
     sorted_distances (matrix3 ! 1) \<and>
   sorted_distances (matrix3 ! 1) \<noteq> sorted_distances (matrix3 ! 2) \<and>
   recommend lower_latin1 round3_of_0_1 ([233] @ py_str ''cole'') corpus_dup matrix3 =
     (case collect round3_of_0_1 corpus_dup (sorted_distances (matrix3 ! 1)) [] of
        Inl e \<Rightarrow> Inr []
      | Inr rs \<Rightarrow> Inr rs) \<and>
   recommend lower_latin1 round3_of_0_1 (py_str ''Alie'') corpus_dup matrix3 = Inr []"
proof -
  have same: "lower_latin1 ([201] @ py_str ''COLE'') = lower_latin1 ([233] @ py_str ''cole'')"
    by code_simp
  have inside: "(1 :: nat) < length corpus_dup"
    by code_simp
  have here: "lower_latin1 (title (corpus_dup ! 1)) = lower_latin1 ([233] @ py_str ''cole'')"
    by code_simp
  have before0:
    "lower_latin1 (title (corpus_dup ! 0)) \<noteq> lower_latin1 ([233] @ py_str ''cole'')"
    by code_simp
  then have before:
    "\<forall>j<1. lower_latin1 (title (corpus_dup ! j)) \<noteq> lower_latin1 ([233] @ py_str ''cole'')"
    by simp
  have absent:
    "\<forall>m\<in>set corpus_dup. lower_latin1 (title m) \<noteq> lower_latin1 (py_str ''Alie'')"
    by code_simp
  then have absent_all:
    "list_all (\<lambda>m. lower_latin1 (title m) \<noteq> lower_latin1 (py_str ''Alie'')) corpus_dup"
    by (simp only: list_all_iff)
  have selected: "movie_matches lower_latin1 ([233] @ py_str ''cole'') corpus_dup = [1, 2]"
    by code_simp
  have rows: "(1 :: nat) < length matrix3"
    by code_simp
  have differ: "sorted_distances (matrix3 ! 1) \<noteq> sorted_distances (matrix3 ! 2)"
    by code_simp
  from recommend_title_lookup
    [OF same inside here before absent, of round3_of_0_1 corpus_dup matrix3 matrix3 matrix3]
    rows
  have "recommend lower_latin1 round3_of_0_1 ([201] @ py_str ''COLE'') corpus_dup matrix3 =
     recommend lower_latin1 round3_of_0_1 ([233] @ py_str ''cole'') corpus_dup matrix3 \<and>
   ranking lower_latin1 ([233] @ py_str ''cole'') corpus_dup matrix3 =
     sorted_distances (matrix3 ! 1) \<and>
   recommend lower_latin1 round3_of_0_1 ([233] @ py_str ''cole'') corpus_dup matrix3 =
     (case collect round3_of_0_1 corpus_dup (sorted_distances (matrix3 ! 1)) [] of
        Inl e \<Rightarrow> Inr []
      | Inr rs \<Rightarrow> Inr rs) \<and>
   recommend lower_latin1 round3_of_0_1 (py_str ''Alie'') corpus_dup matrix3 = Inr []"
    by simp
  with same inside here before0 absent_all selected differ show ?thesis by blast
qed

subsection \<open>Failures reported as the empty list\<close>

text \<open>
  C9: no exception leaves \<open>recommend\<close>: for all arguments it returns a list. When
  its body raises, when the title matches no row, and when the query succeeds on
  a corpus of one record, the list is empty, so the empty list does not tell these
  three apart.
\<close>

theorem recommend_swallows_errors:
  assumes "recommend_try lower round3 q1 df1 sim1 = Inl e"
    and "movie_matches lower q2 df2 = []"
    and "length df3 = 1" and "length sim3 = 1" and "length (sim3 ! 0) = 1"
    and "movie_matches lower q3 df3 \<noteq> []"
  shows "recommend lower round3 q1 df1 sim1 = Inr [] \<and>
         recommend lower round3 q2 df2 sim2 = Inr [] \<and>
         recommend_try lower round3 q3 df3 sim3 = Inr [] \<and>
         recommend lower round3 q3 df3 sim3 = Inr [] \<and>
         (\<exists>rs. recommend lower round3 q df sim = Inr rs)"
proof (intro conjI)
  show "recommend lower round3 q1 df1 sim1 = Inr []"
    using assms(1) by (simp add: recommend_def)
  show "recommend lower round3 q2 df2 sim2 = Inr []"
    using assms(2) by (simp add: recommend_def recommend_try_not_found)
  from assms(6) obtain i rest where m: "movie_matches lower q3 df3 = i # rest"
    by (cases "movie_matches lower q3 df3") auto
  from movie_matches_Cons [OF m] assms(3) have i: "i = 0" by simp
  have "length (sorted_distances (sim3 ! 0)) = 0"
    by (simp add: length_sorted_distances assms(5))
  then have "sorted_distances (sim3 ! 0) = []" by simp
  with m i assms(4) show try3: "recommend_try lower round3 q3 df3 sim3 = Inr []"
    by (simp add: recommend_try_def)
  then show "recommend lower round3 q3 df3 sim3 = Inr []"
    by (simp add: recommend_def)
  show "\<exists>rs. recommend lower round3 q df sim = Inr rs"
    by (cases "recommend_try lower round3 q df sim") (simp_all add: recommend_def)
qed

text \<open>
  A call on a matrix without rows, where the body raises IndexError; a call with a
  title that no row has; and a call on the first row alone.
\<close>

theorem recommend_swallows_errors_witness:
  "recommend_try lower_latin1 round3_of_0_1 (py_str ''A'') corpus3 [] = Inl IndexError \<and>
   movie_matches lower_latin1 (py_str ''Zodiac'') corpus3 = [] \<and>
   length (take 1 corpus3) = 1 \<and> length [[1 :: rat]] = 1 \<and> length ([[1 :: rat]] ! 0) = 1 \<and>
   movie_matches lower_latin1 (py_str ''A'') (take 1 corpus3) \<noteq> [] \<and>
   recommend lower_latin1 round3_of_0_1 (py_str ''A'') corpus3 [] = Inr [] \<and>
   recommend lower_latin1 round3_of_0_1 (py_str ''Zodiac'') corpus3 matrix3 = Inr [] \<and>
   recommend_try lower_latin1 round3_of_0_1 (py_str ''A'') (take 1 corpus3) [[1]] = Inr [] \<and>
   recommend lower_latin1 round3_of_0_1 (py_str ''A'') (take 1 corpus3) [[1]] = Inr [] \<and>
   (\<exists>rs. recommend lower_latin1 round3_of_0_1 (py_str ''C'') corpus3 matrix3 = Inr rs)"
proof -
  have raised:
    "recommend_try lower_latin1 round3_of_0_1 (py_str ''A'') corpus3 [] = Inl IndexError"
    by code_simp
  have absent: "movie_matches lower_latin1 (py_str ''Zodiac'') corpus3 = []"
    by code_simp
  have one: "length (take 1 corpus3) = 1"
    by code_simp
  have rows: "length [[1 :: rat]] = 1"
    by simp
  have columns: "length ([[1 :: rat]] ! 0) = 1"
    by simp
  have found: "movie_matches lower_latin1 (py_str ''A'') (take 1 corpus3) \<noteq> []"
    by code_simp
  from recommend_swallows_errors
    [OF raised absent one rows columns found, of matrix3 "py_str ''C''" corpus3 matrix3]
    raised absent one rows columns found
  show ?thesis by blast
qed

subsection \<open>At most five recommendations\<close>

text \<open>
  C10: for every title, data frame and matrix, \<open>recommend\<close> returns a list, and the
  list has at most 5 recommendations. The bound is the constant of the slice
  \<open>[1:6]\<close>; \<open>recommend\<close> has no parameter for it.
\<close>

theorem recommend_at_most_five:
  "\<exists>rs. recommend lower round3 q df sim = Inr rs \<and> length rs \<le> 5"
  by (cases "recommend_try lower round3 q df sim")
    (auto simp: recommend_def dest: recommend_try_length)

end
